theory Spec2Isabelle
  imports Complex_Main
begin

section \<open>Vectors and matrices of the GLM library\<close>

text \<open>
  The program computes with \<^verbatim>\<open>glm::vec3\<close>, \<^verbatim>\<open>glm::vec4\<close> and \<^verbatim>\<open>glm::mat4\<close> over
  \<^verbatim>\<open>float\<close>. The embedding takes the components as real numbers: every operation is
  the exact counterpart of the floating-point one, and rounding is not modelled.
  A \<^verbatim>\<open>mat4\<close> is stored by columns, \<^verbatim>\<open>m[c]\<close> is column \<open>c\<close> and \<^verbatim>\<open>m[c][r]\<close> its row \<open>r\<close>.
\<close>

datatype vec3 = Vec3 (vx: real) (vy: real) (vz: real)

datatype vec4 = Vec4 (x4: real) (y4: real) (z4: real) (w4: real)

datatype mat4 = Mat4 (col0: vec4) (col1: vec4) (col2: vec4) (col3: vec4)

text \<open>\<^verbatim>\<open>glm::vec3(v)\<close> of a \<^verbatim>\<open>vec4\<close> drops the last component; \<^verbatim>\<open>glm::vec4(v, w)\<close> appends one.\<close>

fun xyz :: "vec4 \<Rightarrow> vec3" where
  "xyz (Vec4 x y z w) = Vec3 x y z"

fun vec4_of :: "vec3 \<Rightarrow> real \<Rightarrow> vec4" where
  "vec4_of (Vec3 x y z) w = Vec4 x y z w"


fun sub3 :: "vec3 \<Rightarrow> vec3 \<Rightarrow> vec3" where
  "sub3 (Vec3 a b c) (Vec3 x y z) = Vec3 (a - x) (b - y) (c - z)"

fun neg3 :: "vec3 \<Rightarrow> vec3" where
  "neg3 (Vec3 x y z) = Vec3 (- x) (- y) (- z)"

fun scale3 :: "vec3 \<Rightarrow> real \<Rightarrow> vec3" where
  "scale3 (Vec3 x y z) s = Vec3 (x * s) (y * s) (z * s)"

fun glm_dot3 :: "vec3 \<Rightarrow> vec3 \<Rightarrow> real" where
  "glm_dot3 (Vec3 a b c) (Vec3 x y z) = a * x + b * y + c * z"

definition glm_length3 :: "vec3 \<Rightarrow> real" where
  "glm_length3 v = sqrt (glm_dot3 v v)"

text \<open>\<^verbatim>\<open>glm::normalize(v)\<close> is \<^verbatim>\<open>v * inversesqrt(dot(v, v))\<close>.\<close>

definition glm_normalize3 :: "vec3 \<Rightarrow> vec3" where
  "glm_normalize3 v = scale3 v (1 / sqrt (glm_dot3 v v))"


fun add4 :: "vec4 \<Rightarrow> vec4 \<Rightarrow> vec4" where
  "add4 (Vec4 a b c d) (Vec4 x y z w) = Vec4 (a + x) (b + y) (c + z) (d + w)"

fun scale4 :: "vec4 \<Rightarrow> real \<Rightarrow> vec4" where
  "scale4 (Vec4 x y z w) s = Vec4 (x * s) (y * s) (z * s) (w * s)"

fun glm_dot4 :: "vec4 \<Rightarrow> vec4 \<Rightarrow> real" where
  "glm_dot4 (Vec4 a b c d) (Vec4 x y z w) = a * x + b * y + c * z + d * w"

definition mat4_identity :: mat4 where
  "mat4_identity = Mat4 (Vec4 1 0 0 0) (Vec4 0 1 0 0) (Vec4 0 0 1 0) (Vec4 0 0 0 1)"

text \<open>\<^verbatim>\<open>m * v\<close>: the linear combination of the columns of \<open>m\<close> with the components of \<open>v\<close>.\<close>

fun mat_vec :: "mat4 \<Rightarrow> vec4 \<Rightarrow> vec4" where
  "mat_vec (Mat4 c0 c1 c2 c3) (Vec4 x y z w) =
     add4 (add4 (add4 (scale4 c0 x) (scale4 c1 y)) (scale4 c2 z)) (scale4 c3 w)"

text \<open>\<^verbatim>\<open>a * b\<close>: column \<open>j\<close> of the product is \<open>a\<close> applied to column \<open>j\<close> of \<open>b\<close>.\<close>

fun mat_mul :: "mat4 \<Rightarrow> mat4 \<Rightarrow> mat4" where
  "mat_mul a (Mat4 b0 b1 b2 b3) = Mat4 (mat_vec a b0) (mat_vec a b1) (mat_vec a b2) (mat_vec a b3)"

fun mat_scale :: "mat4 \<Rightarrow> real \<Rightarrow> mat4" where
  "mat_scale (Mat4 c0 c1 c2 c3) s = Mat4 (scale4 c0 s) (scale4 c1 s) (scale4 c2 s) (scale4 c3 s)"

definition glm_transpose :: "mat4 \<Rightarrow> mat4" where
  "glm_transpose m =
    (case m of Mat4 (Vec4 m00 m01 m02 m03) (Vec4 m10 m11 m12 m13)
                    (Vec4 m20 m21 m22 m23) (Vec4 m30 m31 m32 m33) \<Rightarrow>
       Mat4 (Vec4 m00 m10 m20 m30) (Vec4 m01 m11 m21 m31)
            (Vec4 m02 m12 m22 m32) (Vec4 m03 m13 m23 m33))"

text \<open>
  \<^verbatim>\<open>glm::inverse\<close> of a \<^verbatim>\<open>mat4\<close>: GLM computes the signed cofactors from the eighteen
  2x2 minors \<^verbatim>\<open>Coef00 .. Coef23\<close>, the determinant \<^verbatim>\<open>Dot1\<close> as column 0 of \<open>m\<close> times
  row 0 of the cofactor matrix, and returns the cofactor matrix times \<^verbatim>\<open>1 / Dot1\<close>.
  \<open>glm_cofactors\<close> is GLM's local \<^verbatim>\<open>Inverse\<close>, \<open>glm_determinant\<close> its \<^verbatim>\<open>Dot1\<close>.
\<close>

definition glm_cofactors :: "mat4 \<Rightarrow> mat4" where
  "glm_cofactors m =
    (case m of Mat4 (Vec4 m00 m01 m02 m03) (Vec4 m10 m11 m12 m13)
                    (Vec4 m20 m21 m22 m23) (Vec4 m30 m31 m32 m33) \<Rightarrow>
     let Coef00 = m22 * m33 - m32 * m23;
         Coef02 = m12 * m33 - m32 * m13;
         Coef03 = m12 * m23 - m22 * m13;
         Coef04 = m21 * m33 - m31 * m23;
         Coef06 = m11 * m33 - m31 * m13;
         Coef07 = m11 * m23 - m21 * m13;
         Coef08 = m21 * m32 - m31 * m22;
         Coef10 = m11 * m32 - m31 * m12;
         Coef11 = m11 * m22 - m21 * m12;
         Coef12 = m20 * m33 - m30 * m23;
         Coef14 = m10 * m33 - m30 * m13;
         Coef15 = m10 * m23 - m20 * m13;
         Coef16 = m20 * m32 - m30 * m22;
         Coef18 = m10 * m32 - m30 * m12;
         Coef19 = m10 * m22 - m20 * m12;
         Coef20 = m20 * m31 - m30 * m21;
         Coef22 = m10 * m31 - m30 * m11;
         Coef23 = m10 * m21 - m20 * m11
     in Mat4
       (Vec4 (m11 * Coef00 - m12 * Coef04 + m13 * Coef08)
             (- (m01 * Coef00 - m02 * Coef04 + m03 * Coef08))
             (m01 * Coef02 - m02 * Coef06 + m03 * Coef10)
             (- (m01 * Coef03 - m02 * Coef07 + m03 * Coef11)))
       (Vec4 (- (m10 * Coef00 - m12 * Coef12 + m13 * Coef16))
             (m00 * Coef00 - m02 * Coef12 + m03 * Coef16)
             (- (m00 * Coef02 - m02 * Coef14 + m03 * Coef18))
             (m00 * Coef03 - m02 * Coef15 + m03 * Coef19))
       (Vec4 (m10 * Coef04 - m11 * Coef12 + m13 * Coef20)
             (- (m00 * Coef04 - m01 * Coef12 + m03 * Coef20))
             (m00 * Coef06 - m01 * Coef14 + m03 * Coef22)
             (- (m00 * Coef07 - m01 * Coef15 + m03 * Coef23)))
       (Vec4 (- (m10 * Coef08 - m11 * Coef16 + m12 * Coef20))
             (m00 * Coef08 - m01 * Coef16 + m02 * Coef20)
             (- (m00 * Coef10 - m01 * Coef18 + m02 * Coef22))
             (m00 * Coef11 - m01 * Coef19 + m02 * Coef23)))"

definition glm_determinant :: "mat4 \<Rightarrow> real" where
  "glm_determinant m =
     (case glm_cofactors m of
        Mat4 i0 i1 i2 i3 \<Rightarrow> glm_dot4 (col0 m) (Vec4 (x4 i0) (x4 i1) (x4 i2) (x4 i3)))"

definition glm_inverse :: "mat4 \<Rightarrow> mat4" where
  "glm_inverse m = mat_scale (glm_cofactors m) (1 / glm_determinant m)"

text \<open>
  \<^verbatim>\<open>glm::rotate(m, angle, v)\<close>: with \<^verbatim>\<open>c = cos(angle)\<close>, \<^verbatim>\<open>s = sin(angle)\<close>,
  \<^verbatim>\<open>axis = normalize(v)\<close> and \<^verbatim>\<open>temp = (1 - c) * axis\<close>, GLM builds the 3x3 rotation
  \<^verbatim>\<open>Rotate\<close> and returns the first three columns of \<open>m\<close> combined by it, keeping column 3.
\<close>

definition glm_rotate :: "mat4 \<Rightarrow> real \<Rightarrow> vec3 \<Rightarrow> mat4" where
  "glm_rotate m a v =
    (let c = cos a; s = sin a;
         axis = glm_normalize3 v;
         temp = scale3 axis (1 - c);
         r00 = c + vx temp * vx axis;
         r01 = vx temp * vy axis + s * vz axis;
         r02 = vx temp * vz axis - s * vy axis;
         r10 = vy temp * vx axis - s * vz axis;
         r11 = c + vy temp * vy axis;
         r12 = vy temp * vz axis + s * vx axis;
         r20 = vz temp * vx axis + s * vy axis;
         r21 = vz temp * vy axis - s * vx axis;
         r22 = c + vz temp * vz axis
     in Mat4
       (add4 (add4 (scale4 (col0 m) r00) (scale4 (col1 m) r01)) (scale4 (col2 m) r02))
       (add4 (add4 (scale4 (col0 m) r10) (scale4 (col1 m) r11)) (scale4 (col2 m) r12))
       (add4 (add4 (scale4 (col0 m) r20) (scale4 (col1 m) r21)) (scale4 (col2 m) r22))
       (col3 m))"

section \<open>PortalMath: the transform library\<close>

text \<open>
  \<^verbatim>\<open>glm::rotate(glm::mat4(1.0f), glm::pi<float>(), glm::vec3(0.0f, 1.0f, 0.0f))\<close>, the
  half turn about the Y axis that every pair transform of PortalMath.h builds.
\<close>

definition rotate180 :: mat4 where
  "rotate180 = glm_rotate mat4_identity pi (Vec3 0 1 0)"

text \<open>\<^verbatim>\<open>PortalMath::GetPortalForward\<close>: the normalised third basis column.\<close>

definition GetPortalForward :: "mat4 \<Rightarrow> vec3" where
  "GetPortalForward portalMatrix = glm_normalize3 (xyz (col2 portalMatrix))"

text \<open>\<^verbatim>\<open>PortalMath::GetSignedDistanceToPortal\<close> (PortalMath.h, lines 98-105).\<close>

definition GetSignedDistanceToPortal :: "vec3 \<Rightarrow> mat4 \<Rightarrow> real" where
  "GetSignedDistanceToPortal point portalMatrix =
    (let portalNormal = neg3 (xyz (col2 portalMatrix));
         portalPosition = xyz (col3 portalMatrix)
     in glm_dot3 (sub3 point portalPosition) portalNormal)"

text \<open>\<^verbatim>\<open>PortalMath::GetPortalPlane\<close> (lines 176-182): \<open>(A, B, C, D)\<close> of \<open>Ax + By + Cz + D = 0\<close>.\<close>

definition GetPortalPlane :: "mat4 \<Rightarrow> vec4" where
  "GetPortalPlane portalMatrix =
    (let portalNormal = neg3 (xyz (col2 portalMatrix));
         portalPosition = xyz (col3 portalMatrix);
         d = - glm_dot3 portalNormal portalPosition
     in vec4_of portalNormal d)"

text \<open>\<^verbatim>\<open>PortalMath::ComputePortalTransform\<close> (lines 164-170).\<close>

definition ComputePortalTransform :: "mat4 \<Rightarrow> mat4 \<Rightarrow> mat4" where
  "ComputePortalTransform sourcePortalMatrix targetPortalMatrix =
     mat_mul (mat_mul targetPortalMatrix rotate180) (glm_inverse sourcePortalMatrix)"

text \<open>\<^verbatim>\<open>PortalMath::TeleportPosition\<close> (lines 110-119).\<close>

definition TeleportPosition :: "vec3 \<Rightarrow> mat4 \<Rightarrow> mat4 \<Rightarrow> vec3" where
  "TeleportPosition worldPosition sourcePortalMatrix targetPortalMatrix =
    (let teleportMatrix =
           mat_mul (mat_mul targetPortalMatrix rotate180) (glm_inverse sourcePortalMatrix);
         result = mat_vec teleportMatrix (vec4_of worldPosition 1)
     in xyz result)"

text \<open>\<^verbatim>\<open>PortalMath::CalculatePortalViewMatrix\<close> (lines 36-52).\<close>

definition CalculatePortalViewMatrix :: "mat4 \<Rightarrow> mat4 \<Rightarrow> mat4 \<Rightarrow> mat4" where
  "CalculatePortalViewMatrix playerViewMatrix sourcePortalMatrix targetPortalMatrix =
    (let playerCameraMatrix = glm_inverse playerViewMatrix;
         sourcePortalInverse = glm_inverse sourcePortalMatrix;
         virtualCameraMatrix =
           mat_mul (mat_mul (mat_mul targetPortalMatrix rotate180) sourcePortalInverse)
                   playerCameraMatrix
     in glm_inverse virtualCameraMatrix)"

section \<open>PortalTeleporter: crossing detection\<close>

text \<open>
  \<^verbatim>\<open>PortalTeleporter::TeleportableEntity\<close>. \<^verbatim>\<open>ShouldTeleport\<close> reads of the portal only its
  \<^verbatim>\<open>transform\<close>, so the portal argument of the model is that matrix.
\<close>

record TeleportableEntity =
  position :: vec3
  previousPosition :: vec3
  velocity :: vec3
  transform :: mat4
  isNearPortal :: bool
  lastTeleportTime :: real




text \<open>
  The two time helpers (lines 28-37). Each owns a function-local static \<^verbatim>\<open>s_time\<close>; the
  state of the pair is both variables, each initialised to \<^verbatim>\<open>0.0f\<close>.
\<close>

record time_statics =
  GetCurrentTime_s_time :: real
  SetCurrentTime_s_time :: real

definition time_statics_init :: time_statics where
  "time_statics_init = \<lparr>GetCurrentTime_s_time = 0, SetCurrentTime_s_time = 0\<rparr>"

definition GetCurrentTime :: "time_statics \<Rightarrow> real" where
  "GetCurrentTime st = GetCurrentTime_s_time st"

definition SetCurrentTime :: "real \<Rightarrow> time_statics \<Rightarrow> time_statics" where
  "SetCurrentTime time st = st\<lparr>SetCurrentTime_s_time := time\<rparr>"

section \<open>Notions of the specification used to state the teleporter properties\<close>

text \<open>
  A frame is affine when its bottom row is \<open>(0, 0, 0, 1)\<close>, and rigid when in addition its
  three basis columns are orthonormal (rotation and translation, no scale).
\<close>

definition is_affine :: "mat4 \<Rightarrow> bool" where
  "is_affine m \<longleftrightarrow> w4 (col0 m) = 0 \<and> w4 (col1 m) = 0 \<and> w4 (col2 m) = 0 \<and> w4 (col3 m) = 1"

definition is_rigid :: "mat4 \<Rightarrow> bool" where
  "is_rigid m \<longleftrightarrow> is_affine m
     \<and> glm_dot3 (xyz (col0 m)) (xyz (col0 m)) = 1
     \<and> glm_dot3 (xyz (col1 m)) (xyz (col1 m)) = 1
     \<and> glm_dot3 (xyz (col2 m)) (xyz (col2 m)) = 1
     \<and> glm_dot3 (xyz (col0 m)) (xyz (col1 m)) = 0
     \<and> glm_dot3 (xyz (col0 m)) (xyz (col2 m)) = 0
     \<and> glm_dot3 (xyz (col1 m)) (xyz (col2 m)) = 0"




definition portalA_transform :: mat4 where
  "portalA_transform = Mat4 (Vec4 (-1) 0 0 0) (Vec4 0 1 0 0) (Vec4 0 0 (-1) 0) (Vec4 (-5) (3/2) 0 1)"

definition portalB_transform :: mat4 where
  "portalB_transform = Mat4 (Vec4 0 0 1 0) (Vec4 0 1 0 0) (Vec4 (-1) 0 0 0) (Vec4 5 (3/2) (-10) 1)"

section \<open>Portals and render traces\<close>

text \<open>
  \<^verbatim>\<open>PortalRenderer::Portal\<close>. A \<^verbatim>\<open>Portal*\<close> is an address into a store of portals and
  \<^verbatim>\<open>nullptr\<close> is \<open>None\<close>; two pointers are equal when the addresses are. The OpenGL
  handles of the struct are left out: no traversal decision reads them.
\<close>

record Portal =
  transform :: mat4
  width :: real
  height :: real
  linkedPortal :: "nat option"
  isActive :: bool

type_synonym portal_store = "nat \<Rightarrow> Portal"

definition MAX_PORTAL_RECURSION :: int where
  "MAX_PORTAL_RECURSION = 4"

text \<open>
  The renderers issue OpenGL commands. The embedding records, in order, the stages a
  traversal reaches: each event names the stage, the portal traversed, the recursion level,
  the stencil reference the stage sets and the view and projection matrices it draws or
  computes with. \<open>Cull\<close> is recorded when a portal has passed the tests that skip it.
\<close>

datatype stage =
  Cull | Mark | ClearDepth | ComputeVirtualView | RecurseChildren | RenderContent
  | SealDepth | RestoreStencil

datatype event =
  Ev (ev_stage: stage) (ev_portal: nat) (ev_level: int) (ev_stencil: int)
     (ev_view: mat4) (ev_proj: mat4)

text \<open>\<^verbatim>\<open>PortalMath::CalculatePortalView\<close> (PortalMath.h, lines 152-158).\<close>

definition CalculatePortalView :: "mat4 \<Rightarrow> mat4 \<Rightarrow> mat4 \<Rightarrow> mat4" where
  "CalculatePortalView sourcePortalMatrix targetPortalMatrix playerViewMatrix =
     CalculatePortalViewMatrix playerViewMatrix sourcePortalMatrix targetPortalMatrix"

text \<open>
  \<^verbatim>\<open>PortalMath::CalculateObliqueProjectionMatrix\<close> (lines 73-93); \<^verbatim>\<open>glm::sign\<close> is \<open>sgn\<close>.
  Row 2 of every column becomes the scaled plane component minus row 3.
\<close>

definition CalculateObliqueProjectionMatrix :: "mat4 \<Rightarrow> vec4 \<Rightarrow> mat4" where
  "CalculateObliqueProjectionMatrix projectionMatrix clipPlane =
    (let q = Vec4 ((sgn (x4 clipPlane) + x4 (col2 projectionMatrix)) / x4 (col0 projectionMatrix))
                  ((sgn (y4 clipPlane) + y4 (col2 projectionMatrix)) / y4 (col1 projectionMatrix))
                  (- 1)
                  ((1 + z4 (col2 projectionMatrix)) / z4 (col3 projectionMatrix));
         c = scale4 clipPlane (2 / glm_dot4 clipPlane q)
     in case projectionMatrix of
          Mat4 (Vec4 m00 m01 m02 m03) (Vec4 m10 m11 m12 m13)
               (Vec4 m20 m21 m22 m23) (Vec4 m30 m31 m32 m33) \<Rightarrow>
            Mat4 (Vec4 m00 m01 (x4 c - m03) m03) (Vec4 m10 m11 (y4 c - m13) m13)
                 (Vec4 m20 m21 (z4 c - m23) m23) (Vec4 m30 m31 (w4 c - m33) m33))"

text \<open>\<^verbatim>\<open>PortalMath::CalculateObliqueProjection\<close> (lines 188-199).\<close>

definition CalculateObliqueProjection :: "mat4 \<Rightarrow> mat4 \<Rightarrow> vec4 \<Rightarrow> mat4" where
  "CalculateObliqueProjection projectionMatrix viewMatrix worldPlane =
    (let viewInverseTranspose = glm_transpose (glm_inverse viewMatrix);
         viewSpacePlane = mat_vec viewInverseTranspose worldPlane
     in CalculateObliqueProjectionMatrix projectionMatrix viewSpacePlane)"

section \<open>main_example.cpp: the recursive renderer of the demo\<close>

text \<open>\<^verbatim>\<open>glm::radians\<close> and \<^verbatim>\<open>glm::perspective\<close> (right-handed, depth range -1 to 1).\<close>

definition glm_radians :: "real \<Rightarrow> real" where
  "glm_radians degrees = degrees * pi / 180"

definition glm_perspective :: "real \<Rightarrow> real \<Rightarrow> real \<Rightarrow> real \<Rightarrow> mat4" where
  "glm_perspective fovy aspect zNear zFar =
    (let tanHalfFovy = tan (fovy / 2)
     in Mat4 (Vec4 (1 / (aspect * tanHalfFovy)) 0 0 0)
             (Vec4 0 (1 / tanHalfFovy) 0 0)
             (Vec4 0 0 (- (zFar + zNear) / (zFar - zNear)) (- 1))
             (Vec4 0 0 (- (2 * zFar * zNear) / (zFar - zNear)) 0))"

text \<open>\<^verbatim>\<open>IsPortalVisible\<close> (main_example.cpp, lines 814-829).\<close>

definition IsPortalVisible :: "Portal \<Rightarrow> vec3 \<Rightarrow> vec3 \<Rightarrow> bool" where
  "IsPortalVisible portal cameraPos cameraForward =
    (let portalPos = xyz (col3 (transform portal));
         toPortal = sub3 portalPos cameraPos
     in if glm_dot3 toPortal cameraForward < - 1 then False
        else if glm_length3 toPortal > 100 then False
        else True)"

text \<open>\<^verbatim>\<open>GetPortalViewingSide\<close> (lines 833-838): 1 for the front, -1 for the back.\<close>

definition GetPortalViewingSide :: "Portal \<Rightarrow> vec3 \<Rightarrow> int" where
  "GetPortalViewingSide portal cameraPos =
    (let portalPos = xyz (col3 (transform portal));
         portalNormal = xyz (mat_vec (transform portal) (Vec4 0 0 1 0));
         toCamera = sub3 cameraPos portalPos
     in if glm_dot3 toCamera portalNormal > 0 then 1 else - 1)"

text \<open>
  The clip plane of \<^verbatim>\<open>RenderPortalContent\<close> in the view space of the virtual camera
  (lines 1007-1018): the position of the destination portal, and its normal, flipped when its
  \<open>z\<close> component is positive.
\<close>

definition clipPosView :: "mat4 \<Rightarrow> mat4 \<Rightarrow> vec3" where
  "clipPosView virtualViewMatrix destTransform =
    (let destPortalPos = xyz (col3 destTransform)
     in xyz (mat_vec virtualViewMatrix (vec4_of destPortalPos 1)))"

definition clipNormalView :: "mat4 \<Rightarrow> mat4 \<Rightarrow> vec3" where
  "clipNormalView virtualViewMatrix destTransform =
    (let destPortalNormal = glm_normalize3 (xyz (mat_vec destTransform (Vec4 0 0 1 0)));
         n = glm_normalize3 (xyz (mat_vec virtualViewMatrix (vec4_of destPortalNormal 0)))
     in if vz n > 0 then neg3 n else n)"

text \<open>
  The choice of the projection in \<^verbatim>\<open>RenderPortalContent\<close> (lines 1020-1079), from the
  clip normal and the clip position: the oblique projection, the perspective projection with
  the near plane at the portal's distance, or leaving the function. The result names the branch
  taken and carries the matrix the branch assigns to \<^verbatim>\<open>virtualProjection\<close>.
\<close>

datatype projection_choice =
  ObliqueClipping mat4 | DistanceNearPlane mat4 | SkipPortalRender

definition select_virtual_projection :: "mat4 \<Rightarrow> vec3 \<Rightarrow> vec3 \<Rightarrow> projection_choice" where
  "select_virtual_projection projectionMatrix clipNormal clipPos =
    (let clipD = - glm_dot3 clipNormal clipPos;
         clipPlane = vec4_of clipNormal (clipD - 1 / 100);
         useObliqueClipping = (if \<bar>vz clipNormal\<bar> < 5 / 100 then False else True);
         skipPortalRender = (if clipD > - (1 / 100) then True else False)
     in if skipPortalRender then SkipPortalRender
        else if useObliqueClipping
        then ObliqueClipping (CalculateObliqueProjectionMatrix projectionMatrix clipPlane)
        else
          let portalDist = - vz clipPos
          in if portalDist < 1 / 10 then SkipPortalRender
             else
               let safeNearPlane = max (1 / 100) (portalDist * (9 / 10));
                   fov = 2 * arctan (1 / y4 (col1 projectionMatrix));
                   aspect = y4 (col1 projectionMatrix) / x4 (col0 projectionMatrix);
                   farPlane = 100
               in DistanceNearPlane (glm_perspective fov aspect safeNearPlane farPlane))"

text \<open>
  The matrix the chosen branch leaves in \<^verbatim>\<open>virtualProjection\<close>; \<open>None\<close> when the branch
  returns from \<^verbatim>\<open>RenderPortalContent\<close>.
\<close>

fun virtual_projection_of :: "projection_choice \<Rightarrow> mat4 option" where
  "virtual_projection_of (ObliqueClipping m) = Some m"
| "virtual_projection_of (DistanceNearPlane m) = Some m"
| "virtual_projection_of SkipPortalRender = None"

text \<open>
  \<^verbatim>\<open>RenderPortalsRecursive\<close> (lines 857-897) and \<^verbatim>\<open>RenderPortalContent\<close>
  (lines 903-1181), which call each other. \<open>g_Portals\<close> is the global vector of portal
  pointers. The trace of \<^verbatim>\<open>RenderPortalContent\<close> follows its numbered steps: step 1 marks
  the stencil, steps 2 and 3 compute the virtual view and choose the projection, step 4 clears
  the depth, step 5 draws skybox, scene and frames, step 6 walks the portals at the next
  level, step 6.5 seals the depth, step 7 restores the stencil reference. The debug output is
  not part of the trace. \<^verbatim>\<open>RenderPortalContent\<close> dereferences \<^verbatim>\<open>portal->linkedPortal\<close>
  unchecked; the walk calls it for linked portals only, and for an unlinked one the model has
  the empty trace.
\<close>

function RenderPortalsRecursive ::
    "portal_store \<Rightarrow> nat list \<Rightarrow> mat4 \<Rightarrow> mat4 \<Rightarrow> vec3 \<Rightarrow> vec3 \<Rightarrow> int \<Rightarrow> int \<Rightarrow> real
      \<Rightarrow> nat option \<Rightarrow> event list"
  and RenderPortalContent ::
    "portal_store \<Rightarrow> nat list \<Rightarrow> nat \<Rightarrow> mat4 \<Rightarrow> mat4 \<Rightarrow> vec3 \<Rightarrow> int \<Rightarrow> int \<Rightarrow> real
      \<Rightarrow> int \<Rightarrow> event list"
where
  "RenderPortalsRecursive store g_Portals viewMatrix projectionMatrix cameraPos cameraForward
      recursionLevel stencilValue currentTime excludePortal =
    (if recursionLevel \<ge> MAX_PORTAL_RECURSION then []
     else concat (map (\<lambda>i.
       let portal = g_Portals ! i
       in if \<not> isActive (store portal) \<or> linkedPortal (store portal) = None then []
          else if (case excludePortal of
                     None \<Rightarrow> False
                   | Some ex \<Rightarrow> portal = ex \<or> Some portal = linkedPortal (store ex)) then []
          else
            let actualCameraPos = xyz (col3 (glm_inverse viewMatrix))
            in if \<not> IsPortalVisible (store portal) actualCameraPos cameraForward then []
               else
                 let viewingSide = GetPortalViewingSide (store portal) actualCameraPos
                 in Ev Cull portal recursionLevel stencilValue viewMatrix projectionMatrix
                    # RenderPortalContent store g_Portals portal viewMatrix projectionMatrix
                        actualCameraPos recursionLevel (stencilValue + int i + 1)
                        currentTime viewingSide)
       [0..<length g_Portals]))"
| "RenderPortalContent store g_Portals portal viewMatrix projectionMatrix cameraPos
      recursionLevel stencilValue currentTime viewingSide =
    (case linkedPortal (store portal) of
       None \<Rightarrow> []
     | Some destPortal \<Rightarrow>
       let effectiveSrcTransform =
             (if viewingSide < 0
              then mat_mul (transform (store portal))
                     (glm_rotate mat4_identity (glm_radians 180) (Vec3 0 1 0))
              else transform (store portal));
           virtualViewMatrix = CalculatePortalViewMatrix viewMatrix
                                 (transform (store portal)) (transform (store destPortal));
           portalTransform = ComputePortalTransform
                               (transform (store portal)) (transform (store destPortal));
           currentCameraPos = xyz (col3 (glm_inverse viewMatrix));
           virtualCameraPos = xyz (mat_vec portalTransform (vec4_of currentCameraPos 1));
           clipPositionView = clipPosView virtualViewMatrix (transform (store destPortal));
           clipNormal = clipNormalView virtualViewMatrix (transform (store destPortal))
       in [Ev Mark portal recursionLevel stencilValue viewMatrix projectionMatrix,
           Ev ComputeVirtualView portal recursionLevel stencilValue
             virtualViewMatrix projectionMatrix]
          @ (case virtual_projection_of
                    (select_virtual_projection projectionMatrix clipNormal clipPositionView) of
               None \<Rightarrow> []
             | Some virtualProjection \<Rightarrow>
               let invVirtualView = glm_inverse virtualViewMatrix;
                   virtualCameraForward = neg3 (glm_normalize3 (xyz (col2 invVirtualView)))
               in [Ev ClearDepth portal recursionLevel stencilValue viewMatrix projectionMatrix,
                   Ev RenderContent portal recursionLevel stencilValue
                     virtualViewMatrix virtualProjection,
                   Ev RecurseChildren portal recursionLevel stencilValue
                     virtualViewMatrix virtualProjection]
                  @ RenderPortalsRecursive store g_Portals virtualViewMatrix virtualProjection
                      virtualCameraPos virtualCameraForward (recursionLevel + 1) stencilValue
                      currentTime (Some portal)
                  @ [Ev SealDepth portal recursionLevel stencilValue viewMatrix projectionMatrix,
                     Ev RestoreStencil portal recursionLevel
                       (if recursionLevel = 0 then 0 else stencilValue - 1)
                       viewMatrix projectionMatrix]))"
  by pat_completeness auto
termination
  by (relation "measure (\<lambda>x. case x of
        Inl (store, g_Portals, viewMatrix, projectionMatrix, cameraPos, cameraForward,
             recursionLevel, rest) \<Rightarrow> 2 * nat (MAX_PORTAL_RECURSION - recursionLevel)
      | Inr (store, g_Portals, portal, viewMatrix, projectionMatrix, cameraPos,
             recursionLevel, rest) \<Rightarrow>
          (if MAX_PORTAL_RECURSION \<le> recursionLevel then 1
           else 2 * nat (MAX_PORTAL_RECURSION - recursionLevel) - 1))")
     (auto simp: MAX_PORTAL_RECURSION_def)

declare RenderPortalsRecursive.simps [simp del]

declare RenderPortalContent.simps [simp del]

section \<open>PortalRenderer.h: the recursive renderer of the library\<close>

text \<open>\<^verbatim>\<open>PortalRenderer::RenderContext\<close>.\<close>

record RenderContext =
  viewMatrix :: mat4
  projectionMatrix :: mat4
  cameraPosition :: vec3
  cameraForward :: vec3
  screenWidth :: int
  screenHeight :: int

text \<open>
  \<^verbatim>\<open>PortalRenderer::RenderPortalRecursive\<close> (PortalRenderer.h, lines 312-417). The trace
  follows the numbered steps of the body: steps 1 and 2 compute the virtual view and the
  oblique projection, step 3 marks the stencil, step 4 clears the depth, step 5 walks the
  other portals, step 6 calls the scene callback, step 7 decrements the stencil again.
\<close>

function RenderPortalRecursive ::
  "portal_store \<Rightarrow> nat \<Rightarrow> RenderContext \<Rightarrow> int \<Rightarrow> nat list \<Rightarrow> event list" where
  "RenderPortalRecursive store portal context currentRecursion allPortals =
    (if currentRecursion \<ge> MAX_PORTAL_RECURSION then []
     else case linkedPortal (store portal) of
       None \<Rightarrow> []
     | Some linked \<Rightarrow>
       if \<not> isActive (store portal) then []
       else
         let virtualView = CalculatePortalView (transform (store portal))
                             (transform (store linked)) (viewMatrix context);
             virtualCameraPos = xyz (col3 (glm_inverse virtualView));
             portalPlaneWorld = GetPortalPlane (transform (store linked));
             obliqueProj = CalculateObliqueProjection (projectionMatrix context)
                             virtualView portalPlaneWorld;
             nestedContext = context\<lparr>viewMatrix := virtualView,
                                      projectionMatrix := obliqueProj,
                                      cameraPosition := virtualCameraPos\<rparr>
         in [Ev Cull portal currentRecursion currentRecursion
               (viewMatrix context) (projectionMatrix context),
             Ev ComputeVirtualView portal currentRecursion currentRecursion
               virtualView obliqueProj,
             Ev Mark portal currentRecursion currentRecursion
               (viewMatrix context) (projectionMatrix context),
             Ev ClearDepth portal currentRecursion (currentRecursion + 1)
               (viewMatrix context) (projectionMatrix context),
             Ev RecurseChildren portal currentRecursion (currentRecursion + 1)
               virtualView obliqueProj]
            @ concat (map (\<lambda>otherPortal.
                  if otherPortal \<noteq> portal \<and> isActive (store otherPortal)
                  then RenderPortalRecursive store otherPortal nestedContext
                         (currentRecursion + 1) allPortals
                  else []) allPortals)
            @ [Ev RenderContent portal currentRecursion (currentRecursion + 1)
                 virtualView obliqueProj,
               Ev RestoreStencil portal currentRecursion (currentRecursion + 1)
                 (viewMatrix context) (projectionMatrix context)])"
  by pat_completeness auto
termination
  by (relation "measure (\<lambda>(store, portal, context, currentRecursion, allPortals).
        nat (MAX_PORTAL_RECURSION - currentRecursion))") auto

declare RenderPortalRecursive.simps [simp del]

section \<open>Notions used to state the renderer properties\<close>

text \<open>The test of \<^verbatim>\<open>RenderPortalsRecursive\<close> that skips the pair being traversed (lines 877-881).\<close>

definition excluded_pair :: "portal_store \<Rightarrow> nat option \<Rightarrow> nat \<Rightarrow> bool" where
  "excluded_pair store excludePortal portal =
     (case excludePortal of None \<Rightarrow> False
      | Some ex \<Rightarrow> portal = ex \<or> Some portal = linkedPortal (store ex))"

text \<open>The context \<^verbatim>\<open>RenderPortalRecursive\<close> hands to the portals it walks at the next level.\<close>

definition nested_context :: "portal_store \<Rightarrow> nat \<Rightarrow> nat \<Rightarrow> RenderContext \<Rightarrow> RenderContext" where
  "nested_context store portal linked ctx =
    (let virtualView = CalculatePortalView (transform (store portal))
                             (transform (store linked)) (viewMatrix ctx);
         virtualCameraPos = xyz (col3 (glm_inverse virtualView));
         portalPlaneWorld = GetPortalPlane (transform (store linked));
         obliqueProj = CalculateObliqueProjection (projectionMatrix ctx)
                             virtualView portalPlaneWorld
     in ctx\<lparr>viewMatrix := virtualView, projectionMatrix := obliqueProj,
             cameraPosition := virtualCameraPos\<rparr>)"


text \<open>
  The number of content passes of a trace, and the bound on it for \<open>n\<close> portals and \<open>k\<close>
  remaining levels: each of at most \<open>n\<close> traversals draws its content once and walks the
  next level.
\<close>

definition content_passes :: "event list \<Rightarrow> nat" where
  "content_passes tr = length (filter (\<lambda>e. ev_stage e = RenderContent) tr)"

fun pass_bound :: "nat \<Rightarrow> nat \<Rightarrow> nat" where
  "pass_bound n 0 = 0"
| "pass_bound n (Suc k) = n * (1 + pass_bound n k)"

text \<open>
  Concrete scenes. A frame without rotation at a position, and one turned by half a turn
  about the Y axis; the view of a camera at \<open>(0, 0, 5)\<close> looking down \<open>-Z\<close>, of one at
  \<open>(0, 0, -5)\<close> looking up \<open>+Z\<close>, of one at \<open>(0, 0, -5)\<close> looking down \<open>-Z\<close>, and of
  one at \<open>(-5, 0, 1)\<close> looking up \<open>+X\<close>, along the plane of a portal facing \<open>+Z\<close>; a
  projection with near plane 1 and far plane 3.
\<close>

definition translation :: "real \<Rightarrow> real \<Rightarrow> real \<Rightarrow> mat4" where
  "translation x y z = Mat4 (Vec4 1 0 0 0) (Vec4 0 1 0 0) (Vec4 0 0 1 0) (Vec4 x y z 1)"

definition half_turn_at :: "real \<Rightarrow> real \<Rightarrow> real \<Rightarrow> mat4" where
  "half_turn_at x y z = Mat4 (Vec4 (-1) 0 0 0) (Vec4 0 1 0 0) (Vec4 0 0 (-1) 0) (Vec4 x y z 1)"

definition front_view :: mat4 where
  "front_view = translation 0 0 (-5)"

definition back_view :: mat4 where
  "back_view = half_turn_at 0 0 (-5)"



definition demo_projection :: mat4 where
  "demo_projection = Mat4 (Vec4 1 0 0 0) (Vec4 0 1 0 0) (Vec4 0 0 (-2) (-1)) (Vec4 0 0 (-3) 0)"

definition front_context :: RenderContext where
  "front_context = \<lparr>viewMatrix = front_view, projectionMatrix = demo_projection,
     cameraPosition = Vec3 0 0 5, cameraForward = Vec3 0 0 (-1),
     screenWidth = 1280, screenHeight = 720\<rparr>"

text \<open>Two linked portals: portal 0 at the origin, portal 1 at \<open>(10, 0, 0)\<close>, both facing \<open>+Z\<close>.\<close>

definition linked_pair_store :: portal_store where
  "linked_pair_store a =
     (if a = 0 then \<lparr>transform = translation 0 0 0, width = 2, height = 3,
                      linkedPortal = Some 1, isActive = True\<rparr>
      else \<lparr>transform = translation 10 0 0, width = 2, height = 3,
             linkedPortal = Some 0, isActive = True\<rparr>)"

text \<open>
  Two linked pairs: portals 0 and 1, and portals 2 and 3. Portal 2 stands three units behind
  portal 1, far from portal 0, so that it is seen only through the first pair.
\<close>

definition two_pair_store :: portal_store where
  "two_pair_store a =
     (if a = 0 then \<lparr>transform = translation 0 0 0, width = 2, height = 3,
                      linkedPortal = Some 1, isActive = True\<rparr>
      else if a = 1 then \<lparr>transform = translation 1000 0 0, width = 2, height = 3,
                      linkedPortal = Some 0, isActive = True\<rparr>
      else if a = 2 then \<lparr>transform = translation 1000 0 3, width = 2, height = 3,
                      linkedPortal = Some 3, isActive = True\<rparr>
      else \<lparr>transform = translation 3000 0 0, width = 2, height = 3,
             linkedPortal = Some 2, isActive = True\<rparr>)"

section \<open>Facts of the matrix algebra\<close>

lemma rotate180_eq:
  "rotate180 = Mat4 (Vec4 (-1) 0 0 0) (Vec4 0 1 0 0) (Vec4 0 0 (-1) 0) (Vec4 0 0 0 1)"
  by (simp add: rotate180_def glm_rotate_def glm_normalize3_def mat4_identity_def Let_def)

lemma mat4_exhaust:
  obtains m00 m01 m02 m03 m10 m11 m12 m13 m20 m21 m22 m23 m30 m31 m32 m33 where
    "m = Mat4 (Vec4 m00 m01 m02 m03) (Vec4 m10 m11 m12 m13)
              (Vec4 m20 m21 m22 m23) (Vec4 m30 m31 m32 m33)"
  by (cases m; cases "col0 m"; cases "col1 m"; cases "col2 m"; cases "col3 m") auto

lemma mat_vec_mat_mul: "mat_vec (mat_mul a b) v = mat_vec a (mat_vec b v)"
proof (rule mat4_exhaust [of a], rule mat4_exhaust [of b])
  fix a00 a01 a02 a03 a10 a11 a12 a13 a20 a21 a22 a23 a30 a31 a32 a33
    b00 b01 b02 b03 b10 b11 b12 b13 b20 b21 b22 b23 b30 b31 b32 b33
  assume "a = Mat4 (Vec4 a00 a01 a02 a03) (Vec4 a10 a11 a12 a13)
                   (Vec4 a20 a21 a22 a23) (Vec4 a30 a31 a32 a33)"
    and "b = Mat4 (Vec4 b00 b01 b02 b03) (Vec4 b10 b11 b12 b13)
                  (Vec4 b20 b21 b22 b23) (Vec4 b30 b31 b32 b33)"
  then show ?thesis
    by (cases v) (simp add: algebra_simps)
qed

lemma mat_mul_assoc: "mat_mul (mat_mul a b) c = mat_mul a (mat_mul b c)"
  by (cases c) (simp add: mat_vec_mat_mul)

lemma mat_vec_identity: "mat_vec mat4_identity v = v"
  by (cases v) (simp add: mat4_identity_def)

lemma mat_mul_identity_left: "mat_mul mat4_identity m = m"
  by (cases m) (simp add: mat_vec_identity)

lemma cofactors_mul_left:
  "mat_mul (glm_cofactors m) m = mat_scale mat4_identity (glm_determinant m)"
  by (rule mat4_exhaust [of m])
     (simp add: glm_cofactors_def glm_determinant_def mat4_identity_def Let_def algebra_simps)

lemma cofactors_mul_right:
  "mat_mul m (glm_cofactors m) = mat_scale mat4_identity (glm_determinant m)"
  by (rule mat4_exhaust [of m])
     (simp add: glm_cofactors_def glm_determinant_def mat4_identity_def Let_def algebra_simps)

lemma mat_mul_scale_left: "mat_mul (mat_scale a s) m = mat_scale (mat_mul a m) s"
  by (rule mat4_exhaust [of a], rule mat4_exhaust [of m]) (simp add: algebra_simps)

lemma mat_mul_scale_right: "mat_mul m (mat_scale a s) = mat_scale (mat_mul m a) s"
  by (rule mat4_exhaust [of a], rule mat4_exhaust [of m]) (simp add: algebra_simps)

lemma scale_identity_cancel:
  "d \<noteq> 0 \<Longrightarrow> mat_scale (mat_scale mat4_identity d) (1 / d) = mat4_identity"
  by (simp add: mat4_identity_def)

lemma glm_inverse_left: "glm_determinant m \<noteq> 0 \<Longrightarrow> mat_mul (glm_inverse m) m = mat4_identity"
  by (simp add: glm_inverse_def mat_mul_scale_left cofactors_mul_left scale_identity_cancel)

lemma glm_inverse_right: "glm_determinant m \<noteq> 0 \<Longrightarrow> mat_mul m (glm_inverse m) = mat4_identity"
  by (simp add: glm_inverse_def mat_mul_scale_right cofactors_mul_right scale_identity_cancel)


text \<open>The determinant of a rigid frame squares to the Gram determinant of its basis, which is 1.\<close>

lemma rigid_determinant_sq:
  assumes "is_rigid m"
  shows "glm_determinant m * glm_determinant m = 1"
proof (rule mat4_exhaust [of m])
  fix a0 a1 a2 a3 b0 b1 b2 b3 c0 c1 c2 c3 d0 d1 d2 d3
  assume m: "m = Mat4 (Vec4 a0 a1 a2 a3) (Vec4 b0 b1 b2 b3) (Vec4 c0 c1 c2 c3) (Vec4 d0 d1 d2 d3)"
  from assms have w: "a3 = 0" "b3 = 0" "c3 = 0" "d3 = 1"
    and aa: "a0 * a0 + a1 * a1 + a2 * a2 = 1"
    and bb: "b0 * b0 + b1 * b1 + b2 * b2 = 1"
    and cc: "c0 * c0 + c1 * c1 + c2 * c2 = 1"
    and ab: "a0 * b0 + a1 * b1 + a2 * b2 = 0"
    and ac: "a0 * c0 + a1 * c1 + a2 * c2 = 0"
    and bc: "b0 * c0 + b1 * c1 + b2 * c2 = 0"
    by (simp_all add: is_rigid_def is_affine_def m)
  define D where
    "D = a0 * (b1 * c2 - c1 * b2) - b0 * (a1 * c2 - c1 * a2) + c0 * (a1 * b2 - b1 * a2)"
  have det: "glm_determinant m = D"
    by (simp add: m w glm_determinant_def glm_cofactors_def Let_def D_def algebra_simps)
  have gram: "D * D =
      (a0 * a0 + a1 * a1 + a2 * a2) * (b0 * b0 + b1 * b1 + b2 * b2) * (c0 * c0 + c1 * c1 + c2 * c2)
      + 2 * (a0 * b0 + a1 * b1 + a2 * b2) * (b0 * c0 + b1 * c1 + b2 * c2)
          * (a0 * c0 + a1 * c1 + a2 * c2)
      - (a0 * a0 + a1 * a1 + a2 * a2)
          * ((b0 * c0 + b1 * c1 + b2 * c2) * (b0 * c0 + b1 * c1 + b2 * c2))
      - (b0 * b0 + b1 * b1 + b2 * b2)
          * ((a0 * c0 + a1 * c1 + a2 * c2) * (a0 * c0 + a1 * c1 + a2 * c2))
      - (c0 * c0 + c1 * c1 + c2 * c2)
          * ((a0 * b0 + a1 * b1 + a2 * b2) * (a0 * b0 + a1 * b1 + a2 * b2))"
    unfolding D_def by (simp add: algebra_simps)
  have "D * D = 1"
    unfolding gram aa bb cc ab ac bc by simp
  with det show ?thesis by simp
qed

lemma rigid_determinant: "is_rigid m \<Longrightarrow> glm_determinant m \<noteq> 0"
  using rigid_determinant_sq [of m] by auto

lemma is_affine_rotate180: "is_affine rotate180"
  by (simp add: rotate180_eq is_affine_def)

lemma is_affine_mat_mul: "is_affine a \<Longrightarrow> is_affine b \<Longrightarrow> is_affine (mat_mul a b)"
  by (rule mat4_exhaust [of a], rule mat4_exhaust [of b]) (simp add: is_affine_def)

lemma is_affine_glm_inverse:
  assumes "is_affine m" and "glm_determinant m \<noteq> 0"
  shows "is_affine (glm_inverse m)"
proof (rule mat4_exhaust [of m])
  fix m00 m01 m02 m03 m10 m11 m12 m13 m20 m21 m22 m23 m30 m31 m32 m33
  assume m: "m = Mat4 (Vec4 m00 m01 m02 m03) (Vec4 m10 m11 m12 m13)
              (Vec4 m20 m21 m22 m23) (Vec4 m30 m31 m32 m33)"
  from assms(1) have w: "m03 = 0" "m13 = 0" "m23 = 0" "m33 = 1"
    by (simp_all add: is_affine_def m)
  from assms(2) have d: "m00 * (m11 * m22 - m21 * m12) - m10 * (m01 * m22 - m21 * m02)
       + m20 * (m01 * m12 - m11 * m02) \<noteq> 0"
    by (simp add: m w glm_determinant_def glm_cofactors_def Let_def algebra_simps)
  show ?thesis
    using d by (simp add: m w is_affine_def glm_inverse_def glm_determinant_def glm_cofactors_def
        Let_def algebra_simps)
qed

lemma affine_point:
  "is_affine m \<Longrightarrow> vec4_of (xyz (mat_vec m (vec4_of p 1))) 1 = mat_vec m (vec4_of p 1)"
  by (rule mat4_exhaust [of m], cases p) (simp add: is_affine_def)

lemma xyz_vec4_of: "xyz (vec4_of p w) = p"
  by (cases p) simp

lemma pair_transform_inverse:
  assumes "glm_determinant a \<noteq> 0" and "glm_determinant b \<noteq> 0"
  shows "mat_mul (ComputePortalTransform b a) (ComputePortalTransform a b) = mat4_identity"
proof -
  have rr: "mat_mul rotate180 rotate180 = mat4_identity"
    by (simp add: rotate180_eq mat4_identity_def)
  have "mat_mul (ComputePortalTransform b a) (ComputePortalTransform a b) =
        mat_mul a (mat_mul rotate180 (mat_mul (mat_mul (glm_inverse b) b)
          (mat_mul rotate180 (glm_inverse a))))"
    by (simp add: ComputePortalTransform_def mat_mul_assoc)
  also have "\<dots> = mat_mul a (mat_mul (mat_mul rotate180 rotate180) (glm_inverse a))"
    by (simp add: glm_inverse_left assms mat_mul_identity_left mat_mul_assoc)
  also have "\<dots> = mat4_identity"
    by (simp add: rr mat_mul_identity_left glm_inverse_right assms)
  finally show ?thesis .
qed

lemma is_affine_ComputePortalTransform:
  "is_affine a \<Longrightarrow> glm_determinant a \<noteq> 0 \<Longrightarrow> is_affine b \<Longrightarrow>
   is_affine (ComputePortalTransform a b)"
  by (simp add: ComputePortalTransform_def is_affine_mat_mul is_affine_rotate180
      is_affine_glm_inverse)

lemma TeleportPosition_eq:
  "TeleportPosition p a b = xyz (mat_vec (ComputePortalTransform a b) (vec4_of p 1))"
  by (simp add: TeleportPosition_def ComputePortalTransform_def)

lemma rigid_portalA: "is_rigid portalA_transform"
  by (simp add: is_rigid_def is_affine_def portalA_transform_def)

lemma rigid_portalB: "is_rigid portalB_transform"
  by (simp add: is_rigid_def is_affine_def portalB_transform_def)

section \<open>The transform library and the teleporter\<close>




lemma signed_distance_is_negated_local_z:
  "GetSignedDistanceToPortal p m = - glm_dot3 (sub3 p (xyz (col3 m))) (xyz (col2 m))"
  by (cases p; cases "col2 m"; cases "col3 m")
     (simp add: GetSignedDistanceToPortal_def algebra_simps)

text \<open>
  C1. The signed distance is stated to be \<open>dot(p - portalPosition, portalNormal)\<close> with the
  normal the portal's local +Z axis, positive on the front side. For the portal at the origin
  with the identity frame, the point \<open>(0, 0, 1)\<close> lies on the +Z side, one unit along
  \<^verbatim>\<open>GetPortalForward\<close>; \<^verbatim>\<open>GetSignedDistanceToPortal\<close> negates the third basis column and
  returns \<open>-1\<close> there.
\<close>

theorem signed_distance_front_point_is_negative:
  "GetSignedDistanceToPortal (Vec3 0 0 1) mat4_identity = - 1
   \<and> glm_dot3 (sub3 (Vec3 0 0 1) (xyz (col3 mat4_identity))) (GetPortalForward mat4_identity) = 1"
  by (simp add: GetSignedDistanceToPortal_def GetPortalForward_def glm_normalize3_def
      mat4_identity_def)

text \<open>
  C2. For rigid frames \<open>A\<close> and \<open>B\<close> and every point \<open>p\<close>, teleporting \<open>p\<close> from \<open>A\<close> to
  \<open>B\<close> and back from \<open>B\<close> to \<open>A\<close> returns \<open>p\<close>, and the pair transform from \<open>B\<close> to \<open>A\<close>
  is the inverse of the pair transform from \<open>A\<close> to \<open>B\<close>.
\<close>

theorem teleport_round_trip:
  assumes "is_rigid A" and "is_rigid B"
  shows "TeleportPosition (TeleportPosition p A B) B A = p
       \<and> mat_mul (ComputePortalTransform B A) (ComputePortalTransform A B) = mat4_identity"
proof -
  have dA: "glm_determinant A \<noteq> 0" and dB: "glm_determinant B \<noteq> 0"
    using assms by (simp_all add: rigid_determinant)
  have aA: "is_affine A" and aB: "is_affine B"
    using assms by (simp_all add: is_rigid_def)
  have inv: "mat_mul (ComputePortalTransform B A) (ComputePortalTransform A B) = mat4_identity"
    by (rule pair_transform_inverse [OF dA dB])
  have "TeleportPosition (TeleportPosition p A B) B A =
        xyz (mat_vec (ComputePortalTransform B A)
              (mat_vec (ComputePortalTransform A B) (vec4_of p 1)))"
    by (simp add: TeleportPosition_eq affine_point is_affine_ComputePortalTransform aA aB dA)
  also have "\<dots> = xyz (mat_vec (mat_mul (ComputePortalTransform B A) (ComputePortalTransform A B))
                         (vec4_of p 1))"
    by (simp add: mat_vec_mat_mul)
  also have "\<dots> = p"
    by (simp add: inv mat_vec_identity xyz_vec4_of)
  finally show ?thesis using inv by simp
qed

theorem teleport_round_trip_witness:
  "is_rigid portalA_transform \<and> is_rigid portalB_transform \<and>
   TeleportPosition (TeleportPosition (Vec3 1 2 3) portalA_transform portalB_transform)
      portalB_transform portalA_transform = Vec3 1 2 3"
  using teleport_round_trip [OF rigid_portalA rigid_portalB, of "Vec3 1 2 3"]
    rigid_portalA rigid_portalB
  by simp






lemma SetCurrentTime_keeps_getter: "GetCurrentTime (SetCurrentTime t st) = GetCurrentTime st"
  by (simp add: GetCurrentTime_def SetCurrentTime_def)

lemma fold_SetCurrentTime_keeps_getter:
  "GetCurrentTime (fold SetCurrentTime ts st) = GetCurrentTime st"
  by (induction ts arbitrary: st) (simp_all add: SetCurrentTime_keeps_getter)

text \<open>
  C10. The time helpers do not communicate: after any sequence of \<^verbatim>\<open>SetCurrentTime(t)\<close>
  calls from the initial state, \<^verbatim>\<open>GetCurrentTime()\<close> returns \<open>0.0\<close>, since each function has
  its own static variable.
\<close>

theorem time_helpers_do_not_communicate:
  "GetCurrentTime (fold SetCurrentTime ts time_statics_init) = 0"
  by (simp add: fold_SetCurrentTime_keeps_getter)
     (simp add: GetCurrentTime_def time_statics_init_def)

section \<open>Facts of the renderers\<close>

lemma walk_at_max:
  "MAX_PORTAL_RECURSION \<le> l \<Longrightarrow> RenderPortalsRecursive store g V P cam fwd l s t ex = []"
  by (subst RenderPortalsRecursive.simps) simp

lemma walk_event_cases:
  assumes "e \<in> set (RenderPortalsRecursive store g V P cam fwd l s t ex)"
  obtains i where "l < MAX_PORTAL_RECURSION" and "i < length g"
    and "isActive (store (g ! i))" and "linkedPortal (store (g ! i)) \<noteq> None"
    and "\<not> excluded_pair store ex (g ! i)"
    and "e = Ev Cull (g ! i) l s V P
         \<or> e \<in> set (RenderPortalContent store g (g ! i) V P (xyz (col3 (glm_inverse V))) l
                      (s + int i + 1) t
                      (GetPortalViewingSide (store (g ! i)) (xyz (col3 (glm_inverse V)))))"
proof -
  have lt: "l < MAX_PORTAL_RECURSION"
    using assms walk_at_max [of l store g V P cam fwd s t ex] by (cases "l < MAX_PORTAL_RECURSION") auto
  from assms lt show ?thesis
    by (subst (asm) RenderPortalsRecursive.simps)
       (auto simp: Let_def excluded_pair_def split: if_splits intro: that)
qed

lemma content_event_cases:
  assumes "e \<in> set (RenderPortalContent store g p V P cam l s t side)"
  obtains "ev_portal e = p" and "ev_level e = l"
  | V' P' cam' fwd' where "e \<in> set (RenderPortalsRecursive store g V' P' cam' fwd' (l + 1) s t (Some p))"
  using assms
  by (subst (asm) RenderPortalContent.simps)
     (auto simp: Let_def split: option.splits)

lemma walk_levels:
  "e \<in> set (RenderPortalsRecursive store g V P cam fwd l s t ex) \<Longrightarrow>
     l \<le> ev_level e \<and> ev_level e < MAX_PORTAL_RECURSION"
proof (induction "nat (MAX_PORTAL_RECURSION - l)" arbitrary: l V P cam fwd s ex e rule: less_induct)
  case less
  from less.prems show ?case
  proof (cases rule: walk_event_cases)
    case (1 i)
    from 1(6) show ?thesis
    proof
      assume "e = Ev Cull (g ! i) l s V P"
      with 1(1) show ?thesis by simp
    next
      assume "e \<in> set (RenderPortalContent store g (g ! i) V P (xyz (col3 (glm_inverse V))) l
                      (s + int i + 1) t
                      (GetPortalViewingSide (store (g ! i)) (xyz (col3 (glm_inverse V)))))"
      then show ?thesis
      proof (cases rule: content_event_cases)
        case 1
        with \<open>l < MAX_PORTAL_RECURSION\<close> show ?thesis by simp
      next
        case (2 V' P' cam' fwd')
        have "nat (MAX_PORTAL_RECURSION - (l + 1)) < nat (MAX_PORTAL_RECURSION - l)"
          using \<open>l < MAX_PORTAL_RECURSION\<close> by simp
        from less.hyps [OF this 2] show ?thesis by simp
      qed
    qed
  qed
qed

lemma content_unfold:
  assumes "linkedPortal (store p) = Some d"
  shows "RenderPortalContent store g p V P cam l s t side =
     [Ev Mark p l s V P,
      Ev ComputeVirtualView p l s
        (CalculatePortalViewMatrix V (transform (store p)) (transform (store d))) P]
     @ (case virtual_projection_of (select_virtual_projection P
               (clipNormalView (CalculatePortalViewMatrix V (transform (store p))
                   (transform (store d))) (transform (store d)))
               (clipPosView (CalculatePortalViewMatrix V (transform (store p))
                   (transform (store d))) (transform (store d)))) of
          None \<Rightarrow> []
        | Some vp \<Rightarrow>
            [Ev ClearDepth p l s V P,
             Ev RenderContent p l s
               (CalculatePortalViewMatrix V (transform (store p)) (transform (store d))) vp,
             Ev RecurseChildren p l s
               (CalculatePortalViewMatrix V (transform (store p)) (transform (store d))) vp]
            @ RenderPortalsRecursive store g
                (CalculatePortalViewMatrix V (transform (store p)) (transform (store d))) vp
                (xyz (mat_vec (ComputePortalTransform (transform (store p)) (transform (store d)))
                        (vec4_of (xyz (col3 (glm_inverse V))) 1)))
                (neg3 (glm_normalize3 (xyz (col2 (glm_inverse
                   (CalculatePortalViewMatrix V (transform (store p)) (transform (store d))))))))
                (l + 1) s t (Some p)
            @ [Ev SealDepth p l s V P,
               Ev RestoreStencil p l (if l = 0 then 0 else s - 1) V P])"
  using assms by (subst RenderPortalContent.simps) (simp add: Let_def split: option.splits)



lemma content_ignores_viewing_side:
  "RenderPortalContent store g p V P cam l s t side = RenderPortalContent store g p V P cam l s t side'"
  by (simp add: RenderPortalContent.simps Let_def split: option.splits)

lemma content_next_level_excludes_pair:
  assumes "e \<in> set (RenderPortalContent store g p V P cam l s t side)" and "ev_level e = l + 1"
  shows "ev_portal e \<noteq> p \<and> Some (ev_portal e) \<noteq> linkedPortal (store p)"
  using assms(1)
proof (cases rule: content_event_cases)
  case 1
  with assms(2) show ?thesis by simp
next
  case (2 V' P' cam' fwd')
  then show ?thesis
  proof (cases rule: walk_event_cases)
    case (1 i)
    from 1(6) have "ev_portal e = g ! i"
    proof
      assume "e = Ev Cull (g ! i) (l + 1) s V' P'"
      then show ?thesis by simp
    next
      assume "e \<in> set (RenderPortalContent store g (g ! i) V' P' (xyz (col3 (glm_inverse V'))) (l + 1)
                      (s + int i + 1) t
                      (GetPortalViewingSide (store (g ! i)) (xyz (col3 (glm_inverse V')))))"
      then show ?thesis
      proof (cases rule: content_event_cases)
        case 1
        then show ?thesis by simp
      next
        case (2 V'' P'' cam'' fwd'')
        from walk_levels [OF 2] assms(2) show ?thesis by simp
      qed
    qed
    with 1(5) show ?thesis
      by (auto simp: excluded_pair_def)
  qed
qed

lemma content_passes_append: "content_passes (xs @ ys) = content_passes xs + content_passes ys"
  by (simp add: content_passes_def)

lemma content_passes_concat_bound:
  "(\<And>x. x \<in> set xs \<Longrightarrow> content_passes (f x) \<le> b) \<Longrightarrow>
   content_passes (concat (map f xs)) \<le> length xs * b"
proof (induction xs)
  case Nil
  show ?case by (simp add: content_passes_def)
next
  case (Cons x xs)
  have "content_passes (f x) \<le> b" by (rule Cons.prems) simp
  moreover have "content_passes (concat (map f xs)) \<le> length xs * b"
    by (rule Cons.IH) (simp add: Cons.prems)
  ultimately show ?case by (simp add: content_passes_append)
qed

lemma content_passes_content:
  assumes "\<And>V' P' cam' fwd'. content_passes (RenderPortalsRecursive store g V' P' cam' fwd' (l + 1) s t (Some p)) \<le> b"
  shows "content_passes (RenderPortalContent store g p V P cam l s t side) \<le> 1 + b"
proof (cases "linkedPortal (store p)")
  case None
  then show ?thesis
    by (subst RenderPortalContent.simps) (simp add: content_passes_def)
next
  case (Some d)
  show ?thesis
    using assms
    by (simp add: content_unfold [where store = store and p = p, OF Some] content_passes_append
          split: option.splits split del: if_split)
       (simp add: content_passes_def)
qed

lemma walk_content_passes:
  "content_passes (RenderPortalsRecursive store g V P cam fwd l s t ex)
     \<le> pass_bound (length g) (nat (MAX_PORTAL_RECURSION - l))"
proof (induction "nat (MAX_PORTAL_RECURSION - l)" arbitrary: l V P cam fwd s ex rule: less_induct)
  case less
  show ?case
  proof (cases "MAX_PORTAL_RECURSION \<le> l")
    case True
    then show ?thesis by (simp add: walk_at_max content_passes_def)
  next
    case False
    then obtain k where k: "nat (MAX_PORTAL_RECURSION - l) = Suc k"
      and k': "nat (MAX_PORTAL_RECURSION - (l + 1)) = k"
      by (cases "nat (MAX_PORTAL_RECURSION - l)") auto
    have deeper: "content_passes (RenderPortalsRecursive store g V' P' cam' fwd' (l + 1) s' t ex')
          \<le> pass_bound (length g) k" for V' P' cam' fwd' s' ex'
      using less.hyps [of "l + 1" V' P' cam' fwd' s' ex'] k k' by simp
    have body: "content_passes (RenderPortalContent store g p V' P' cam' l s' t side)
          \<le> 1 + pass_bound (length g) k" for p V' P' cam' s' side
      by (rule content_passes_content) (rule deeper)
    show ?thesis
      apply (subst RenderPortalsRecursive.simps)
      apply (simp only: False if_False k pass_bound.simps)
      apply (rule order_trans [OF content_passes_concat_bound [where b = "1 + pass_bound (length g) k"]])
       apply (simp add: Let_def)
       apply (intro conjI impI)
      using body apply (simp_all add: content_passes_def)
      done
  qed
qed

lemma library_at_max:
  "MAX_PORTAL_RECURSION \<le> l \<Longrightarrow> RenderPortalRecursive store p ctx l ps = []"
  by (subst RenderPortalRecursive.simps) simp

lemma library_unfold:
  assumes "l < MAX_PORTAL_RECURSION" and "linkedPortal (store p) = Some d" and "isActive (store p)"
  shows "RenderPortalRecursive store p ctx l ps =
     [Ev Cull p l l (viewMatrix ctx) (projectionMatrix ctx),
      Ev ComputeVirtualView p l l (viewMatrix (nested_context store p d ctx))
         (projectionMatrix (nested_context store p d ctx)),
      Ev Mark p l l (viewMatrix ctx) (projectionMatrix ctx),
      Ev ClearDepth p l (l + 1) (viewMatrix ctx) (projectionMatrix ctx),
      Ev RecurseChildren p l (l + 1) (viewMatrix (nested_context store p d ctx))
         (projectionMatrix (nested_context store p d ctx))]
     @ concat (map (\<lambda>otherPortal.
          if otherPortal \<noteq> p \<and> isActive (store otherPortal)
          then RenderPortalRecursive store otherPortal (nested_context store p d ctx) (l + 1) ps
          else []) ps)
     @ [Ev RenderContent p l (l + 1) (viewMatrix (nested_context store p d ctx))
         (projectionMatrix (nested_context store p d ctx)),
        Ev RestoreStencil p l (l + 1) (viewMatrix ctx) (projectionMatrix ctx)]"
  using assms
  by (subst RenderPortalRecursive.simps) (simp add: Let_def nested_context_def cong: if_cong)



lemmas inverse_eval = glm_inverse_def glm_determinant_def glm_cofactors_def Let_def

lemma inverse_translation: "glm_inverse (translation x y z) = translation (- x) (- y) (- z)"
  by (simp add: translation_def inverse_eval)

lemma inverse_half_turn_at: "glm_inverse (half_turn_at x y z) = half_turn_at x (- y) z"
  by (simp add: half_turn_at_def inverse_eval)

lemma mul_translation_half_turn:
  "mat_mul (translation a b c) (half_turn_at x y z) = half_turn_at (a + x) (b + y) (c + z)"
  by (simp add: translation_def half_turn_at_def)

lemma mul_half_turn_translation:
  "mat_mul (half_turn_at a b c) (translation x y z) = half_turn_at (a - x) (b + y) (c - z)"
  by (simp add: translation_def half_turn_at_def)

lemma rotate180_half_turn: "rotate180 = half_turn_at 0 0 0"
  by (simp add: rotate180_eq half_turn_at_def)

lemma virtual_view_translations:
  "CalculatePortalViewMatrix (translation a b c) (translation x y z) (translation u v w)
     = half_turn_at (u + x + a) (b - (v - y)) (w + z + c)"
  by (simp add: CalculatePortalViewMatrix_def Let_def inverse_translation rotate180_half_turn
      mul_translation_half_turn mul_half_turn_translation inverse_half_turn_at)

lemma store_0:
  "linkedPortal (linked_pair_store 0) = Some 1" "isActive (linked_pair_store 0)"
  "transform (linked_pair_store 0) = translation 0 0 0"
  by (simp_all add: linked_pair_store_def)

lemma store_1:
  "linkedPortal (linked_pair_store 1) = Some 0" "isActive (linked_pair_store 1)"
  "transform (linked_pair_store 1) = translation 10 0 0"
  by (simp_all add: linked_pair_store_def)

lemma clipPosView_eval:
  "clipPosView (half_turn_at a b c) (translation x y z) = Vec3 (a - x) (b + y) (c - z)"
  by (simp add: clipPosView_def half_turn_at_def translation_def)

lemma clipNormalView_eval:
  "clipNormalView (half_turn_at a b c) (translation x y z) = Vec3 0 0 (- 1)"
  by (simp add: clipNormalView_def half_turn_at_def translation_def glm_normalize3_def)

lemma select_oblique_eval:
  "z \<le> - (1 / 100) \<Longrightarrow>
   select_virtual_projection P (Vec3 0 0 (- 1)) (Vec3 x y z)
     = ObliqueClipping (CalculateObliqueProjectionMatrix P (Vec4 0 0 (- 1) (z - 1 / 100)))"
  by (simp add: select_virtual_projection_def)

lemma sqrt_gt_100: "100 < sqrt x \<longleftrightarrow> 10000 < x"
proof -
  have "sqrt 10000 = 100"
    by (rule real_sqrt_unique) simp_all
  with real_sqrt_less_iff [of 10000 x] show ?thesis by simp
qed

lemma two_pair_sel:
  "two_pair_store 0 = \<lparr>transform = translation 0 0 0, width = 2, height = 3,
                      linkedPortal = Some 1, isActive = True\<rparr>"
  "two_pair_store 1 = \<lparr>transform = translation 1000 0 0, width = 2, height = 3,
                      linkedPortal = Some 0, isActive = True\<rparr>"
  "two_pair_store 2 = \<lparr>transform = translation 1000 0 3, width = 2, height = 3,
                      linkedPortal = Some 3, isActive = True\<rparr>"
  "two_pair_store 3 = \<lparr>transform = translation 3000 0 0, width = 2, height = 3,
                      linkedPortal = Some 2, isActive = True\<rparr>"
  by (simp_all add: two_pair_store_def)

lemma IsPortalVisible_record:
  "IsPortalVisible \<lparr>transform = translation x y z, width = w, height = h',
                      linkedPortal = lp, isActive = ac\<rparr> (Vec3 a b c) (Vec3 f g h) \<longleftrightarrow>
     - 1 \<le> (x - a) * f + (y - b) * g + (z - c) * h
     \<and> (x - a) * (x - a) + (y - b) * (y - b) + (z - c) * (z - c) \<le> 10000"
  by (auto simp: IsPortalVisible_def translation_def glm_length3_def sqrt_gt_100 Let_def)

lemma virtual_view_half_turn:
  "CalculatePortalViewMatrix (half_turn_at a b c) (translation x y z) (translation u v w)
     = translation (a - x - u) (b + y - v) (c - z - w)"
  by (simp add: CalculatePortalViewMatrix_def Let_def inverse_translation rotate180_half_turn
      inverse_half_turn_at) (simp add: translation_def half_turn_at_def inverse_eval)

lemma clipPosView_translation:
  "clipPosView (translation a b c) (translation x y z) = Vec3 (a + x) (b + y) (c + z)"
  by (simp add: clipPosView_def translation_def)

lemma clipNormalView_translation:
  "clipNormalView (translation a b c) (translation x y z) = Vec3 0 0 (- 1)"
  by (simp add: clipNormalView_def translation_def glm_normalize3_def)

lemma forward_of_half_turn:
  "neg3 (glm_normalize3 (xyz (col2 (glm_inverse (half_turn_at a b c))))) = Vec3 0 0 1"
  by (simp add: inverse_half_turn_at) (simp add: half_turn_at_def glm_normalize3_def)

lemma forward_of_translation:
  "neg3 (glm_normalize3 (xyz (col2 (glm_inverse (translation a b c))))) = Vec3 0 0 (- 1)"
  by (simp add: inverse_translation) (simp add: translation_def glm_normalize3_def)

lemma camera_of_half_turn: "xyz (col3 (glm_inverse (half_turn_at a b c))) = Vec3 a (- b) c"
  by (simp add: inverse_half_turn_at) (simp add: half_turn_at_def)

lemma camera_of_translation: "xyz (col3 (glm_inverse (translation a b c))) = Vec3 (- a) (- b) (- c)"
  by (simp add: inverse_translation) (simp add: translation_def)

lemma upt_4: "[0..<4] = [0, 1, 2, 3]"
  by (simp add: upt_rec)

lemma level2_walk:
  "RenderPortalsRecursive two_pair_store [0, 1, 2, 3] (translation (- 3000) 0 (- 8)) P cam
     (Vec3 0 0 (- 1)) 2 s t (Some 2) = []"
  by (subst RenderPortalsRecursive.simps)
     (simp add: MAX_PORTAL_RECURSION_def Let_def upt_4 two_pair_sel camera_of_translation
        IsPortalVisible_record del: One_nat_def)

lemma level1_content:
  "RenderPortalContent two_pair_store [0, 1, 2, 3] 2 (half_turn_at 1000 0 (- 5)) P cam 1 s t side =
     [Ev Mark 2 1 s (half_turn_at 1000 0 (- 5)) P,
      Ev ComputeVirtualView 2 1 s (translation (- 3000) 0 (- 8)) P,
      Ev ClearDepth 2 1 s (half_turn_at 1000 0 (- 5)) P,
      Ev RenderContent 2 1 s (translation (- 3000) 0 (- 8))
        (CalculateObliqueProjectionMatrix P (Vec4 0 0 (- 1) (- 8 - 1 / 100))),
      Ev RecurseChildren 2 1 s (translation (- 3000) 0 (- 8))
        (CalculateObliqueProjectionMatrix P (Vec4 0 0 (- 1) (- 8 - 1 / 100))),
      Ev SealDepth 2 1 s (half_turn_at 1000 0 (- 5)) P,
      Ev RestoreStencil 2 1 (s - 1) (half_turn_at 1000 0 (- 5)) P]"
  by (simp add: content_unfold [where store = two_pair_store and p = 2 and d = 3] two_pair_sel
      virtual_view_half_turn clipPosView_translation clipNormalView_translation
      select_oblique_eval forward_of_translation level2_walk del: One_nat_def)

lemma level1_walk:
  "RenderPortalsRecursive two_pair_store [0, 1, 2, 3] (half_turn_at 1000 0 (- 5)) P cam
     (Vec3 0 0 1) 1 s t (Some 0)
   = Ev Cull 2 1 s (half_turn_at 1000 0 (- 5)) P
     # RenderPortalContent two_pair_store [0, 1, 2, 3] 2 (half_turn_at 1000 0 (- 5)) P
         (Vec3 1000 0 (- 5)) 1 (3 + s) t (- 1)"
proof -
  have side: "GetPortalViewingSide (two_pair_store 2) (Vec3 1000 0 (- 5)) = - 1"
    by (simp add: GetPortalViewingSide_def two_pair_sel translation_def)
  show ?thesis
    by (subst RenderPortalsRecursive.simps)
       (simp add: MAX_PORTAL_RECURSION_def Let_def upt_4 two_pair_sel camera_of_half_turn
          IsPortalVisible_record side [unfolded two_pair_sel] del: One_nat_def)
qed

lemma level0_content:
  "RenderPortalContent two_pair_store [0, 1, 2, 3] 0 front_view P cam 0 1 t side =
     [Ev Mark 0 0 1 front_view P,
      Ev ComputeVirtualView 0 0 1 (half_turn_at 1000 0 (- 5)) P,
      Ev ClearDepth 0 0 1 front_view P,
      Ev RenderContent 0 0 1 (half_turn_at 1000 0 (- 5))
        (CalculateObliqueProjectionMatrix P (Vec4 0 0 (- 1) (- 5 - 1 / 100))),
      Ev RecurseChildren 0 0 1 (half_turn_at 1000 0 (- 5))
        (CalculateObliqueProjectionMatrix P (Vec4 0 0 (- 1) (- 5 - 1 / 100))),
      Ev Cull 2 1 1 (half_turn_at 1000 0 (- 5))
        (CalculateObliqueProjectionMatrix P (Vec4 0 0 (- 1) (- 5 - 1 / 100)))]
     @ RenderPortalContent two_pair_store [0, 1, 2, 3] 2 (half_turn_at 1000 0 (- 5))
         (CalculateObliqueProjectionMatrix P (Vec4 0 0 (- 1) (- 5 - 1 / 100)))
         (Vec3 1000 0 (- 5)) 1 4 t (- 1)
     @ [Ev SealDepth 0 0 1 front_view P,
        Ev RestoreStencil 0 0 0 front_view P]"
  by (simp add: content_unfold [where store = two_pair_store and p = 0 and d = 1] two_pair_sel
      front_view_def virtual_view_translations clipPosView_eval clipNormalView_eval
      select_oblique_eval forward_of_half_turn level1_walk del: One_nat_def)

lemma level0_walk:
  "RenderPortalsRecursive two_pair_store [0, 1, 2, 3] front_view P (Vec3 0 0 5) (Vec3 0 0 (- 1))
     0 0 t None
   = Ev Cull 0 0 0 front_view P
     # RenderPortalContent two_pair_store [0, 1, 2, 3] 0 front_view P (Vec3 0 0 5) 0 1 t 1"
proof -
  have side: "GetPortalViewingSide (two_pair_store 0) (Vec3 0 0 5) = 1"
    by (simp add: GetPortalViewingSide_def two_pair_sel translation_def)
  show ?thesis
    by (subst RenderPortalsRecursive.simps)
       (simp add: MAX_PORTAL_RECURSION_def Let_def upt_4 two_pair_sel front_view_def
          camera_of_translation IsPortalVisible_record side [unfolded two_pair_sel]
          del: One_nat_def)
qed

section \<open>The recursive renderers\<close>

text \<open>
  C4. A traversal entered through portal A is stated never to render A or A's partner at the
  next level. \<^verbatim>\<open>RenderPortalsRecursive\<close> of main_example.cpp skips both (lemma
  \<open>content_next_level_excludes_pair\<close>); \<^verbatim>\<open>PortalRenderer::RenderPortalRecursive\<close> skips
  only A itself: for two linked portals 0 and 1, the traversal of portal 0 at level 0 starts
  a traversal of its partner, portal 1, at level 1.
\<close>

theorem library_walk_renders_partner:
  "linkedPortal (linked_pair_store 0) = Some 1
   \<and> (Cull, 1, 1) \<in> set (map (\<lambda>e. (ev_stage e, ev_portal e, ev_level e))
        (RenderPortalRecursive linked_pair_store 0 front_context 0 [0, 1]))"
proof -
  have lt0: "(0::int) < MAX_PORTAL_RECURSION" and lt1: "(1::int) < MAX_PORTAL_RECURSION"
    by (simp_all add: MAX_PORTAL_RECURSION_def)
  show ?thesis
    unfolding library_unfold [where store = linked_pair_store and p = 0,
        OF lt0 store_0(1) store_0(2)]
    by (simp add: store_0 store_1
          library_unfold [where store = linked_pair_store and p = 1, OF lt1 store_1(1) store_1(2)]
          del: One_nat_def)
qed




text \<open>
  C6. Seen from the back, the renderer is stated to turn the source frame by a further half
  turn before it computes the virtual view. \<^verbatim>\<open>RenderPortalContent\<close> computes that frame
  (\<^verbatim>\<open>effectiveSrcTransform\<close>) and never reads it: for portal 0 of the linked pair seen from
  \<open>(0, 0, -5)\<close>, the viewing side is \<open>-1\<close>, the trace is the one of the front side, and the
  virtual view it renders with is computed from the portal's own frame; the view computed from
  the turned frame is another matrix.
\<close>

theorem back_view_uses_unturned_source:
  "GetPortalViewingSide (linked_pair_store 0) (xyz (col3 (glm_inverse back_view))) = - 1
   \<and> RenderPortalContent linked_pair_store [0, 1] 0 back_view demo_projection
         (Vec3 0 0 (- 5)) 0 1 1 (- 1)
       = RenderPortalContent linked_pair_store [0, 1] 0 back_view demo_projection
           (Vec3 0 0 (- 5)) 0 1 1 1
   \<and> RenderPortalContent linked_pair_store [0, 1] 0 back_view demo_projection
         (Vec3 0 0 (- 5)) 0 1 1 (- 1) ! 1
       = Ev ComputeVirtualView 0 0 1
           (CalculatePortalViewMatrix back_view (transform (linked_pair_store 0))
              (transform (linked_pair_store 1))) demo_projection
   \<and> CalculatePortalViewMatrix back_view (transform (linked_pair_store 0))
         (transform (linked_pair_store 1)) = translation (- 10) 0 (- 5)
   \<and> CalculatePortalViewMatrix back_view
         (mat_mul (transform (linked_pair_store 0))
            (glm_rotate mat4_identity (glm_radians 180) (Vec3 0 1 0)))
         (transform (linked_pair_store 1)) = half_turn_at 10 0 (- 5)"
proof -
  have side: "GetPortalViewingSide (linked_pair_store 0) (xyz (col3 (glm_inverse back_view))) = - 1"
    by (simp add: back_view_def camera_of_half_turn GetPortalViewingSide_def store_0
        translation_def)
  have nth: "RenderPortalContent linked_pair_store [0, 1] 0 back_view demo_projection
         (Vec3 0 0 (- 5)) 0 1 1 (- 1) ! 1
       = Ev ComputeVirtualView 0 0 1
           (CalculatePortalViewMatrix back_view (transform (linked_pair_store 0))
              (transform (linked_pair_store 1))) demo_projection"
    by (simp add: content_unfold [where store = linked_pair_store and p = 0 and d = 1] store_0
        del: One_nat_def)
  have own: "CalculatePortalViewMatrix back_view (transform (linked_pair_store 0))
         (transform (linked_pair_store 1)) = translation (- 10) 0 (- 5)"
    by (simp add: store_0 store_1 back_view_def virtual_view_half_turn del: One_nat_def)
  have turn: "glm_rotate mat4_identity (glm_radians 180) (Vec3 0 1 0) = half_turn_at 0 0 0"
    using rotate180_half_turn by (simp add: rotate180_def glm_radians_def)
  have turned: "CalculatePortalViewMatrix back_view
         (mat_mul (transform (linked_pair_store 0))
            (glm_rotate mat4_identity (glm_radians 180) (Vec3 0 1 0)))
         (transform (linked_pair_store 1)) = half_turn_at 10 0 (- 5)"
    by (simp add: turn store_0 store_1 back_view_def mul_translation_half_turn
          CalculatePortalViewMatrix_def rotate180_half_turn inverse_half_turn_at
          del: One_nat_def)
       (simp add: translation_def half_turn_at_def inverse_eval)
  show ?thesis
    using side nth own turned
      content_ignores_viewing_side [of linked_pair_store "[0, 1]" 0 back_view demo_projection
        "Vec3 0 0 (- 5)" 0 1 1 "- 1" 1]
    by simp
qed

text \<open>
  C7. The walk of \<^verbatim>\<open>RenderPortalsRecursive\<close> ends at the fixed depth 4: a call at level 4
  or more issues nothing (nor does one of \<^verbatim>\<open>PortalRenderer::RenderPortalRecursive\<close>), every
  event of a walk entered at level \<open>l\<close> lies at a level from \<open>l\<close> to 3, every event of a
  traversal at level \<open>l\<close> is its own or lies at level \<open>l + 1\<close> or deeper, and the content
  passes of a frame over \<open>n\<close> portals number at most \<open>n + n\<^sup>2 + n\<^sup>3 + n\<^sup>4\<close>, whatever the
  views and the visibility of the portals.
\<close>

theorem walk_bounded_by_depth:
  "(MAX_PORTAL_RECURSION \<le> l \<longrightarrow>
      RenderPortalsRecursive store g V P cam fwd l s t ex = []
      \<and> RenderPortalRecursive store p ctx l g = [])
   \<and> (\<forall>e \<in> set (RenderPortalsRecursive store g V P cam fwd l s t ex).
         l \<le> ev_level e \<and> ev_level e < 4)
   \<and> (\<forall>e \<in> set (RenderPortalContent store g p V P cam l s t side).
         ev_level e = l \<or> l + 1 \<le> ev_level e)
   \<and> content_passes (RenderPortalsRecursive store g V P cam fwd 0 s t ex)
       \<le> length g + (length g)\<^sup>2 + (length g) ^ 3 + (length g) ^ 4"
proof -
  have deeper: "ev_level e = l \<or> l + 1 \<le> ev_level e"
    if "e \<in> set (RenderPortalContent store g p V P cam l s t side)" for e
    using that
  proof (cases rule: content_event_cases)
    case 1
    then show ?thesis by simp
  next
    case (2 V' P' cam' fwd')
    from walk_levels [OF 2] show ?thesis by simp
  qed
  have "pass_bound n (nat (MAX_PORTAL_RECURSION - 0)) = n + n\<^sup>2 + n ^ 3 + n ^ 4" for n
    by (simp add: MAX_PORTAL_RECURSION_def eval_nat_numeral algebra_simps power2_eq_square
        power3_eq_cube power4_eq_xxxx)
  with walk_content_passes [of store g V P cam fwd 0 s t ex]
  have count: "content_passes (RenderPortalsRecursive store g V P cam fwd 0 s t ex)
       \<le> length g + (length g)\<^sup>2 + (length g) ^ 3 + (length g) ^ 4"
    by simp
  show ?thesis
    using walk_at_max [of l store g V P cam fwd s t ex] walk_levels [of _ store g V P cam fwd l s t ex]
      library_at_max [of l store p ctx g] deeper count
    by (auto simp: MAX_PORTAL_RECURSION_def)
qed

theorem walk_bounded_by_depth_witness:
  "MAX_PORTAL_RECURSION \<le> 4
   \<and> RenderPortalsRecursive two_pair_store [0, 1, 2, 3] front_view demo_projection
        (Vec3 0 0 5) (Vec3 0 0 (- 1)) 4 0 1 None = []
   \<and> RenderPortalRecursive two_pair_store 0 front_context 4 [0, 1, 2, 3] = []
   \<and> Ev Cull 0 0 0 front_view demo_projection
       \<in> set (RenderPortalsRecursive two_pair_store [0, 1, 2, 3] front_view demo_projection
                 (Vec3 0 0 5) (Vec3 0 0 (- 1)) 0 0 1 None)
   \<and> ev_level (Ev Cull 0 0 0 front_view demo_projection) < 4
   \<and> Ev Mark 2 1 4 (half_turn_at 1000 0 (- 5))
         (CalculateObliqueProjectionMatrix demo_projection (Vec4 0 0 (- 1) (- 5 - 1 / 100)))
       \<in> set (RenderPortalContent two_pair_store [0, 1, 2, 3] 0 front_view demo_projection
                 (Vec3 0 0 5) 0 1 1 1)
   \<and> content_passes (RenderPortalsRecursive two_pair_store [0, 1, 2, 3] front_view
        demo_projection (Vec3 0 0 5) (Vec3 0 0 (- 1)) 0 0 1 None) = 2
   \<and> (2::nat) \<le> length [0::nat, 1, 2, 3] + (length [0::nat, 1, 2, 3])\<^sup>2
                 + (length [0::nat, 1, 2, 3]) ^ 3 + (length [0::nat, 1, 2, 3]) ^ 4"
proof -
  have m: "MAX_PORTAL_RECURSION \<le> 4"
    by (simp add: MAX_PORTAL_RECURSION_def)
  have cull: "Ev Cull 0 0 0 front_view demo_projection
       \<in> set (RenderPortalsRecursive two_pair_store [0, 1, 2, 3] front_view demo_projection
                 (Vec3 0 0 5) (Vec3 0 0 (- 1)) 0 0 1 None)"
    by (simp add: level0_walk del: One_nat_def)
  have mark: "Ev Mark 2 1 4 (half_turn_at 1000 0 (- 5))
         (CalculateObliqueProjectionMatrix demo_projection (Vec4 0 0 (- 1) (- 5 - 1 / 100)))
       \<in> set (RenderPortalContent two_pair_store [0, 1, 2, 3] 0 front_view demo_projection
                 (Vec3 0 0 5) 0 1 1 1)"
    by (simp add: level0_content level1_content del: One_nat_def)
  have passes: "content_passes (RenderPortalsRecursive two_pair_store [0, 1, 2, 3] front_view
        demo_projection (Vec3 0 0 5) (Vec3 0 0 (- 1)) 0 0 1 None) = 2"
    by (simp add: content_passes_def level0_walk level0_content level1_content
        del: One_nat_def)
  show ?thesis
    using walk_bounded_by_depth [where l = 4 and store = two_pair_store and g = "[0, 1, 2, 3]"
        and V = front_view and P = demo_projection and cam = "Vec3 0 0 5"
        and fwd = "Vec3 0 0 (- 1)" and s = 0 and t = 1 and ex = None and p = 0 and side = 1
        and ctx = front_context]
      walk_bounded_by_depth [where l = 0 and store = two_pair_store and g = "[0, 1, 2, 3]"
        and V = front_view and P = demo_projection and cam = "Vec3 0 0 5"
        and fwd = "Vec3 0 0 (- 1)" and s = 0 and t = 1 and ex = None and p = 0 and side = 1
        and ctx = front_context]
      m cull mark passes
    by simp
qed





end
